theory Spec2Isabelle
  imports Complex_Main "HOL-Library.Sublist"
begin

section \<open>Python values, errors and dictionaries\<close>

text \<open>
  The parameter values of \<^verbatim>\<open>cova_base/model.py\<close> are untyped Python objects. The
  embedding keeps the builtin types the module computes with. Python's unbounded
  integers are \<open>int\<close>; floating-point numbers are idealised as \<open>real\<close>. The elements
  of \<^verbatim>\<open>np.arange\<close> are numpy's 64-bit integers: \<open>PInt64\<close> holds the signed value, and
  arithmetic on it wraps around modulo \<open>2 ^ 64\<close>.
  A dictionary is an association list in insertion order, as Python's \<^verbatim>\<open>dict\<close> is.
\<close>

datatype pyval =
    PNone
  | PBool bool
  | PInt int
  | PInt64 int
  | PFloat real
  | PStr string
  | PList "pyval list"
  | PDict "(string \<times> pyval) list"

datatype error =
    KeyError string
  | ValueError string
  | TypeError string
  | AttributeError string
  | IndexError string
  | OverflowError string
  | OtherError string

type_synonym dict = "(string \<times> pyval) list"

definition bind_err :: "error + 'a \<Rightarrow> ('a \<Rightarrow> error + 'b) \<Rightarrow> error + 'b" where
  "bind_err m f = (case m of Inl e \<Rightarrow> Inl e | Inr x \<Rightarrow> f x)"

definition quoted :: "string \<Rightarrow> string" where
  "quoted s = [CHR 0x27] @ s @ [CHR 0x27]"

fun str_join :: "string \<Rightarrow> string list \<Rightarrow> string" where
  "str_join sep [] = []"
| "str_join sep [x] = x"
| "str_join sep (x # y # ys) = x @ sep @ str_join sep (y # ys)"

definition repr_strs :: "string list \<Rightarrow> string" where
  "repr_strs xs = ''['' @ str_join '', '' (map quoted xs) @ '']''"

definition digit_char :: "nat \<Rightarrow> char" where
  "digit_char d = char_of (48 + d)"

fun str_nat :: "nat \<Rightarrow> string" where
  "str_nat n = (if n < 10 then [digit_char n] else str_nat (n div 10) @ [digit_char (n mod 10)])"

definition type_name :: "pyval \<Rightarrow> string" where
  "type_name v = (case v of
       PNone \<Rightarrow> ''NoneType'' | PBool _ \<Rightarrow> ''bool'' | PInt _ \<Rightarrow> ''int''
     | PInt64 _ \<Rightarrow> ''numpy.int64''
     | PFloat _ \<Rightarrow> ''float'' | PStr _ \<Rightarrow> ''str'' | PList _ \<Rightarrow> ''list''
     | PDict _ \<Rightarrow> ''dict'')"

definition dict_keys :: "('k \<times> 'v) list \<Rightarrow> 'k list" where
  "dict_keys d = map fst d"

definition dict_getitem :: "(string \<times> 'v) list \<Rightarrow> string \<Rightarrow> error + 'v" where
  "dict_getitem d k = (case map_of d k of None \<Rightarrow> Inl (KeyError k) | Some v \<Rightarrow> Inr v)"

fun dict_setitem :: "('k \<times> 'v) list \<Rightarrow> 'k \<Rightarrow> 'v \<Rightarrow> ('k \<times> 'v) list" where
  "dict_setitem [] k v = [(k, v)]"
| "dict_setitem ((k', v') # d) k v =
     (if k' = k then (k, v) # d else (k', v') # dict_setitem d k v)"

definition dict_update :: "('k \<times> 'v) list \<Rightarrow> ('k \<times> 'v) list \<Rightarrow> ('k \<times> 'v) list" where
  "dict_update d u = fold (\<lambda>(k, v) acc. dict_setitem acc k v) u d"

subsection \<open>Arithmetic and comparison of Python values\<close>

text \<open>
  \<open>as_int\<close> reads a Python integer (a \<^verbatim>\<open>bool\<close> is one), \<open>as_np_int\<close> an operand of
  numpy's 64-bit integer arithmetic: a Python integer is converted, which numpy refuses
  when it is out of the signed 64-bit range. An operation on two Python integers is
  exact; an operation on integers of which one is a numpy integer is a 64-bit operation
  and wraps around; an operation with a float operand gives a float. A list combined
  with a numpy integer gives a numpy array, which is not a value of this model.
\<close>

definition in_int64 :: "int \<Rightarrow> bool" where
  "in_int64 i = (- (2 ^ 63) \<le> i \<and> i < 2 ^ 63)"

definition wrap64 :: "int \<Rightarrow> int" where
  "wrap64 i = (i + 2 ^ 63) mod 2 ^ 64 - 2 ^ 63"

definition as_int :: "pyval \<Rightarrow> int option" where
  "as_int v = (case v of PBool b \<Rightarrow> Some (if b then 1 else 0) | PInt i \<Rightarrow> Some i | _ \<Rightarrow> None)"

definition as_np_int :: "pyval \<Rightarrow> (error + int) option" where
  "as_np_int v = (case v of
       PBool b \<Rightarrow> Some (Inr (if b then 1 else 0))
     | PInt i \<Rightarrow> Some (if in_int64 i then Inr i
                       else Inl (OverflowError ''Python integer out of bounds for int64''))
     | PInt64 i \<Rightarrow> Some (Inr i)
     | _ \<Rightarrow> None)"

definition as_count :: "pyval \<Rightarrow> int option" where
  \<comment> \<open>the count of a sequence repetition: any integer\<close>
  "as_count v = (case v of PInt64 i \<Rightarrow> Some i | _ \<Rightarrow> as_int v)"

definition as_real :: "pyval \<Rightarrow> real option" where
  "as_real v = (case v of PBool b \<Rightarrow> Some (if b then 1 else 0) | PInt i \<Rightarrow> Some (of_int i)
     | PInt64 i \<Rightarrow> Some (of_int i) | PFloat r \<Rightarrow> Some r | _ \<Rightarrow> None)"

definition as_str :: "pyval \<Rightarrow> string option" where
  "as_str v = (case v of PStr s \<Rightarrow> Some s | _ \<Rightarrow> None)"

definition as_list :: "pyval \<Rightarrow> pyval list option" where
  "as_list v = (case v of PList xs \<Rightarrow> Some xs | _ \<Rightarrow> None)"

definition is_int64 :: "pyval \<Rightarrow> bool" where
  "is_int64 v = (case v of PInt64 _ \<Rightarrow> True | _ \<Rightarrow> False)"

definition py_add :: "pyval \<Rightarrow> pyval \<Rightarrow> error + pyval" where
  "py_add a b =
     (case (as_int a, as_int b) of
        (Some i, Some j) \<Rightarrow> Inr (PInt (i + j))
      | _ \<Rightarrow>
     (case (as_np_int a, as_np_int b) of
        (Some x, Some y) \<Rightarrow>
          bind_err x (\<lambda>i. bind_err y (\<lambda>j. Inr (PInt64 (wrap64 (i + j)))))
      | _ \<Rightarrow>
     (case (as_real a, as_real b) of
        (Some x, Some y) \<Rightarrow> Inr (PFloat (x + y))
      | _ \<Rightarrow>
     (case (as_str a, as_str b) of
        (Some s, Some t) \<Rightarrow> Inr (PStr (s @ t))
      | _ \<Rightarrow>
     (case (as_list a, as_list b) of
        (Some xs, Some ys) \<Rightarrow> Inr (PList (xs @ ys))
      | _ \<Rightarrow>
          if (as_list a \<noteq> None \<and> is_int64 b) \<or> (is_int64 a \<and> as_list b \<noteq> None)
          then Inl (OtherError ''a numpy array is not a value of the model'')
          else Inl (TypeError ''unsupported operand type(s) for +''))))))"

definition py_mul :: "pyval \<Rightarrow> pyval \<Rightarrow> error + pyval" where
  "py_mul a b =
     (case (as_int a, as_int b) of
        (Some i, Some j) \<Rightarrow> Inr (PInt (i * j))
      | _ \<Rightarrow>
     (case (as_np_int a, as_np_int b) of
        (Some x, Some y) \<Rightarrow>
          bind_err x (\<lambda>i. bind_err y (\<lambda>j. Inr (PInt64 (wrap64 (i * j)))))
      | _ \<Rightarrow>
     (case (as_real a, as_real b) of
        (Some x, Some y) \<Rightarrow> Inr (PFloat (x * y))
      | _ \<Rightarrow>
     (case (as_str a, as_count b) of
        (Some s, Some n) \<Rightarrow> Inr (PStr (concat (replicate (nat n) s)))
      | _ \<Rightarrow>
     (case (as_list a, as_count b) of
        (Some xs, Some n) \<Rightarrow> Inr (PList (concat (replicate (nat n) xs)))
      | _ \<Rightarrow>
     (case (as_int a, as_str b) of
        (Some n, Some s) \<Rightarrow> Inr (PStr (concat (replicate (nat n) s)))
      | _ \<Rightarrow>
     (case (as_int a, as_list b) of
        (Some n, Some xs) \<Rightarrow> Inr (PList (concat (replicate (nat n) xs)))
      | _ \<Rightarrow>
          if is_int64 a \<and> as_list b \<noteq> None
          then Inl (OtherError ''a numpy array is not a value of the model'')
          else Inl (TypeError ''unsupported operand type(s) for *''))))))))"

definition py_ge1 :: "pyval \<Rightarrow> error + bool" where
  \<comment> \<open>\<^verbatim>\<open>verbose>=1\<close>\<close>
  "py_ge1 v = (case as_real v of
       Some x \<Rightarrow> Inr (1 \<le> x)
     | None \<Rightarrow> Inl (TypeError ''>= not supported between these instances''))"

definition py_index :: "'a list \<Rightarrow> int \<Rightarrow> error + 'a" where
  \<comment> \<open>\<^verbatim>\<open>xs[i]\<close> on a sequence of length \<open>n\<close>: the indices \<open>-n, ..., -1\<close> address the
      positions \<open>0, ..., n-1\<close> as well.\<close>
  "py_index xs i =
     (if - int (length xs) \<le> i \<and> i < 0 then Inr (xs ! nat (i + int (length xs)))
      else if 0 \<le> i \<and> i < int (length xs) then Inr (xs ! nat i)
      else Inl (IndexError ''list index out of range''))"

definition np_arange :: "int \<Rightarrow> error + pyval list" where
  \<comment> \<open>\<^verbatim>\<open>np.arange(n)\<close> for an integer \<open>n\<close>: the 64-bit integers \<open>0, ..., n-1\<close>, none when
      \<open>n \<le> 0\<close>. A length that no 64-bit integer holds is refused; the limit of the
      memory is not modelled.\<close>
  "np_arange n =
     (if 2 ^ 63 \<le> n then Inl (ValueError ''Maximum allowed size exceeded'')
      else Inr (map (\<lambda>i. PInt64 (int i)) [0..<nat n]))"

section \<open>ParsObj\<close>

record parsobj =
  pars :: dict

type_synonym person = parsobj

text \<open>
  \<^verbatim>\<open>sc.suggest\<close> belongs to the library sciris: it is a parameter of the model, a
  function from the key and the valid keys to the closest key, when it finds one.
\<close>

type_synonym suggester = "string \<Rightarrow> string list \<Rightarrow> string option"

definition ParsObj_getitem :: "'a parsobj_scheme \<Rightarrow> string \<Rightarrow> error + pyval" where
  "ParsObj_getitem self key = dict_getitem (pars self) key"

definition setitem_errormsg :: "suggester \<Rightarrow> dict \<Rightarrow> string \<Rightarrow> string" where
  "setitem_errormsg suggest d key =
     (case suggest key (dict_keys d) of
        Some (c # cs) \<Rightarrow>
          ''Key '' @ key @ '' not found; did you mean '' @ [CHR 0x22] @ (c # cs) @ [CHR 0x22] @ ''?''
      | _ \<Rightarrow>
          ''Key '' @ key @ '' not found; available keys:'' @ [CHR 0x0A]
            @ str_join [CHR 0x0A] (dict_keys d))"

definition ParsObj_setitem ::
  "suggester \<Rightarrow> 'a parsobj_scheme \<Rightarrow> string \<Rightarrow> pyval \<Rightarrow> error + 'a parsobj_scheme" where
  "ParsObj_setitem suggest self key val =
     (if key \<in> set (dict_keys (pars self))
      then Inr (self\<lparr>pars := dict_setitem (pars self) key val\<rparr>)
      else Inl (KeyError (setitem_errormsg suggest (pars self) key)))"

definition ParsObj_update_pars :: "dict option \<Rightarrow> pyval \<Rightarrow> error + dict" where
  \<comment> \<open>The first argument is \<^verbatim>\<open>self.pars\<close>, \<open>None\<close> while the attribute does not exist.\<close>
  "ParsObj_update_pars self_pars new_pars =
     (case new_pars of
        PDict p \<Rightarrow> (case self_pars of None \<Rightarrow> Inr p | Some d \<Rightarrow> Inr (dict_update d p))
      | _ \<Rightarrow> Inl (TypeError (''The pars object must be a dict; you supplied a <class ''
                 @ quoted (type_name new_pars) @ ''>'')))"

definition ParsObj_init :: "pyval \<Rightarrow> error + parsobj" where
  "ParsObj_init p = bind_err (ParsObj_update_pars None p) (\<lambda>d. Inr \<lparr>pars = d\<rparr>)"

section \<open>Sim\<close>

type_synonym uid = string

record sim = parsobj +
  people :: "(uid \<times> person) list option"
  uids :: "uid list option"
  results :: "dict option"
  results_keys :: "string list option"

text \<open>
  The attributes \<^verbatim>\<open>people\<close>, \<^verbatim>\<open>uids\<close>, \<^verbatim>\<open>results\<close> and \<^verbatim>\<open>results_keys\<close> are not
  set by the constructor; \<open>None\<close> is an attribute that does not exist yet, and reading
  it raises \<^verbatim>\<open>AttributeError\<close>.
\<close>

definition Sim_init :: "dict \<Rightarrow> error + sim" where
  \<comment> \<open>\<^verbatim>\<open>Sim(**kw)\<close>: the only parameter of the constructor is \<^verbatim>\<open>pars\<close>.\<close>
  "Sim_init kw =
     (if \<exists>k \<in> set (dict_keys kw). k \<noteq> ''pars''
      then Inl (TypeError ''__init__() got an unexpected keyword argument'')
      else case map_of kw ''pars'' of
        None \<Rightarrow> Inl (TypeError ''__init__() missing 1 required positional argument: pars'')
      | Some p \<Rightarrow>
          bind_err (ParsObj_update_pars None p)
            (\<lambda>d. Inr \<lparr>pars = d, people = None, uids = None, results = None,
                       results_keys = None\<rparr>))"

datatype rng = Seeded pyval

text \<open>
  Modelled from the spec: \<^verbatim>\<open>utils.set_seed\<close> of this repository is not among the sources;
  the specification says that seeding "reseeds the process-wide random number generator".
  The state of the generator is the value it was last seeded with.
\<close>

definition utils_set_seed :: "pyval \<Rightarrow> rng" where
  "utils_set_seed seed = Seeded seed"

definition Sim_set_seed :: "suggester \<Rightarrow> sim \<Rightarrow> pyval \<Rightarrow> bool \<Rightarrow> error + (sim \<times> rng)" where
  "Sim_set_seed suggest self seed randomize =
     (if randomize then
        (if seed = PNone then Inr (self, utils_set_seed PNone)
         else Inl (ValueError ''You can supply a seed or set randomize=True, but not both''))
      else if seed = PNone then
        bind_err (ParsObj_getitem self ''seed'') (\<lambda>s. Inr (self, utils_set_seed s))
      else
        bind_err (ParsObj_setitem suggest self ''seed'' seed)
          (\<lambda>self'. Inr (self', utils_set_seed seed)))"

definition Sim_n :: "sim \<Rightarrow> error + nat" where
  "Sim_n self = (case people self of
       None \<Rightarrow> Inl (AttributeError ''people'') | Some ps \<Rightarrow> Inr (length ps))"

definition Sim_get_person :: "sim \<Rightarrow> int \<Rightarrow> error + person" where
  "Sim_get_person self ind =
     (case people self of
        None \<Rightarrow> Inl (AttributeError ''people'')
      | Some ps \<Rightarrow>
     (case uids self of
        None \<Rightarrow> Inl (AttributeError ''uids'')
      | Some us \<Rightarrow> bind_err (py_index us ind) (\<lambda>u. dict_getitem ps u)))"

text \<open>
  The indices that address an entry of the identifier table: those Python accepts for a
  sequence of that length. A table that does not exist has none.
\<close>

definition valid_index :: "sim \<Rightarrow> int \<Rightarrow> bool" where
  "valid_index self ind = (case uids self of
       None \<Rightarrow> False
     | Some us \<Rightarrow> - int (length us) \<le> ind \<and> ind < int (length us))"

definition Sim_run :: "pyval \<Rightarrow> sim \<Rightarrow> error + sim" where
  \<comment> \<open>The base class declares \<^verbatim>\<open>run(self)\<close>; the call \<^verbatim>\<open>run(verbose=...)\<close> cannot bind.\<close>
  "Sim_run verbose self = Inl (TypeError ''run() got an unexpected keyword argument'')"

section \<open>single\_run\<close>

definition new_sim_of :: "sim option \<Rightarrow> dict option \<Rightarrow> error + sim" where
  "new_sim_of sim sim_args =
     (let sim_args = (case sim_args of None \<Rightarrow> [] | Some a \<Rightarrow> a)
      in case sim of None \<Rightarrow> Sim_init sim_args | Some s \<Rightarrow> Inr s)"

definition guesses :: "string list" where
  "guesses = [''r_contact'', ''r0'', ''beta'']"

definition found_in :: "dict \<Rightarrow> string list" where
  "found_in d = filter (\<lambda>guess. guess \<in> set (dict_keys d)) guesses"

definition guess_errormsg :: "string list \<Rightarrow> string" where
  "guess_errormsg found = ''Cound not guess noise parameter since out of '' @ repr_strs guesses
     @ '', '' @ repr_strs found @ '' were found''"

definition guess_noisepar :: "sim option \<Rightarrow> error + string" where
  \<comment> \<open>The keys are read from the argument \<^verbatim>\<open>sim\<close>, not from \<^verbatim>\<open>new_sim\<close>.\<close>
  "guess_noisepar sim =
     (case sim of
        None \<Rightarrow> Inl (AttributeError ''NoneType object has no attribute pars'')
      | Some s \<Rightarrow>
          (let found = found_in (pars s)
           in if length found \<noteq> 1 then Inl (KeyError (guess_errormsg found))
              else Inr (found ! 0)))"

definition noisefactor :: "real \<Rightarrow> real" where
  "noisefactor noiseval = (if noiseval > 0 then 1 + noiseval else 1 / (1 - noiseval))"

fun apply_kwargs :: "suggester \<Rightarrow> pyval \<Rightarrow> sim \<Rightarrow> dict \<Rightarrow> error + sim" where
  "apply_kwargs suggest verbose new_sim [] = Inr new_sim"
| "apply_kwargs suggest verbose new_sim ((key, val) # rest) =
     (if key \<in> set (dict_keys (pars new_sim)) then
        (case py_ge1 verbose of
           Inl e \<Rightarrow> Inl e
         | Inr chatty \<Rightarrow>
            (case (if chatty then ParsObj_setitem suggest new_sim key val else Inr new_sim) of
               Inl e \<Rightarrow> Inl e
             | Inr s \<Rightarrow> apply_kwargs suggest verbose s rest))
      else Inl (KeyError (''Could not set key '' @ key @ '': not a valid parameter name'')))"

text \<open>
  \<open>normal\<close> is the sample \<^verbatim>\<open>np.random.normal()\<close> returns first after the generator
  was seeded; \<open>run\<close> is the \<^verbatim>\<open>run\<close> method of the class of the template simulation
  (the hook a specialisation supplies). A simulation constructed by \<^verbatim>\<open>Sim(**sim_args)\<close>
  is of the base class. The \<^verbatim>\<open>print\<close> statements are not modelled. The body of
  \<^verbatim>\<open>single_run\<close> is split in three: lines 165 to 177 (\<open>prepare_sim\<close>), lines 179 to 194
  (\<open>apply_noise\<close>) and the rest.
\<close>

definition prepare_sim ::
  "suggester \<Rightarrow> sim option \<Rightarrow> pyval \<Rightarrow> pyval \<Rightarrow> dict option \<Rightarrow> error + (sim \<times> pyval \<times> rng)" where
  "prepare_sim suggest sim ind verbose sim_args =
     bind_err (new_sim_of sim sim_args) (\<lambda>new_sim.
     bind_err (if verbose = PNone then ParsObj_getitem new_sim ''verbose'' else Inr verbose)
       (\<lambda>verbose.
     bind_err (ParsObj_getitem new_sim ''seed'') (\<lambda>seed.
     bind_err (py_add seed ind) (\<lambda>seed.
     bind_err (ParsObj_setitem suggest new_sim ''seed'' seed) (\<lambda>new_sim.
     bind_err (Sim_set_seed suggest new_sim PNone False) (\<lambda>(new_sim, rng).
     Inr (new_sim, verbose, rng)))))))"

definition apply_noise ::
  "suggester \<Rightarrow> (rng \<Rightarrow> real) \<Rightarrow> sim option \<Rightarrow> real \<Rightarrow> string option \<Rightarrow> sim \<Rightarrow> rng \<Rightarrow>
   error + sim" where
  "apply_noise suggest normal sim noise noisepar new_sim rng =
     bind_err (case noisepar of None \<Rightarrow> guess_noisepar sim | Some p \<Rightarrow> Inr p) (\<lambda>noisepar.
     let noiseval = noise * normal rng;
         nf = noisefactor noiseval
     in
     bind_err (ParsObj_getitem new_sim noisepar) (\<lambda>v.
     bind_err (py_mul v (PFloat nf)) (\<lambda>v.
     ParsObj_setitem suggest new_sim noisepar v)))"

definition single_run ::
  "suggester \<Rightarrow> (rng \<Rightarrow> real) \<Rightarrow> (pyval \<Rightarrow> sim \<Rightarrow> error + sim) \<Rightarrow>
   sim option \<Rightarrow> pyval \<Rightarrow> real \<Rightarrow> string option \<Rightarrow> pyval \<Rightarrow> dict option \<Rightarrow> dict \<Rightarrow>
   error + sim" where
  "single_run suggest normal run sim ind noise noisepar verbose sim_args kwargs =
     bind_err (prepare_sim suggest sim ind verbose sim_args) (\<lambda>(new_sim, verbose, rng).
     bind_err (apply_noise suggest normal sim noise noisepar new_sim rng) (\<lambda>new_sim.
     bind_err (py_ge1 verbose) (\<lambda>_.
     bind_err (apply_kwargs suggest verbose new_sim kwargs) (\<lambda>new_sim.
     (if sim = None then Sim_run else run) verbose new_sim))))"

section \<open>multi\_run\<close>

definition length_errormsg :: "nat \<Rightarrow> nat \<Rightarrow> string" where
  "length_errormsg n new_n = ''Each entry in iterpars must have the same length, not ''
     @ str_nat n @ '' and '' @ str_nat new_n"

fun iterpars_n :: "nat option \<Rightarrow> (string \<times> pyval list) list \<Rightarrow> error + nat option" where
  "iterpars_n n [] = Inr n"
| "iterpars_n n ((key, val) # rest) =
     (let new_n = length val
      in case n of
           None \<Rightarrow> iterpars_n (Some new_n) rest
         | Some m \<Rightarrow>
             if new_n \<noteq> m
             then Inl (ValueError (length_errormsg m (length val)))
             else iterpars_n (Some new_n) rest)"

definition handle_iterpars ::
  "int \<Rightarrow> (string \<times> pyval list) list option \<Rightarrow> error + (int option \<times> (string \<times> pyval list) list)" where
  "handle_iterpars n iterpars =
     (case iterpars of
        None \<Rightarrow> Inr (Some n, [])
      | Some ip \<Rightarrow> bind_err (iterpars_n None ip) (\<lambda>n'. Inr (map_option int n', ip)))"

fun map_err :: "('a \<Rightarrow> error + 'b) \<Rightarrow> 'a list \<Rightarrow> error + 'b list" where
  "map_err f [] = Inr []"
| "map_err f (x # xs) =
     (case f x of
        Inl e \<Rightarrow> Inl e
      | Inr y \<Rightarrow> (case map_err f xs of Inl e \<Rightarrow> Inl e | Inr ys \<Rightarrow> Inr (y # ys)))"

text \<open>
  Modelled from the spec: \<^verbatim>\<open>sc.parallelize\<close> belongs to the library sciris and is not among
  the sources. The specification describes it as a parallel-map facility whose replicates
  are fully isolated, that returns "the ordered collection of completed replicate
  simulations", and where "any error during a replicate propagates and aborts the batch".
  Task \<open>i\<close> receives the \<open>i\<close>-th element of every sequence of \<open>iterkwargs\<close> as a named
  argument: \<^verbatim>\<open>ind\<close> binds the parameter of that name, every other name is collected by
  \<^verbatim>\<open>**kwargs\<close> of the task. Names of the other parameters of \<^verbatim>\<open>single_run\<close> are outside
  this model. The number of tasks is the length of the first sequence, and all sequences
  must have that length.
\<close>

definition parallelize ::
  "(pyval \<Rightarrow> dict \<Rightarrow> error + 'b) \<Rightarrow> (string \<times> pyval list) list \<Rightarrow> error + 'b list" where
  "parallelize task iterkwargs =
     (let niters = (case iterkwargs of [] \<Rightarrow> 0 | (_, vals) # _ \<Rightarrow> length vals)
      in if \<exists>(k, vals) \<in> set iterkwargs. length vals \<noteq> niters
         then Inl (OtherError ''Not all iterkwargs have the same length'')
         else map_err
           (\<lambda>i. let iterdict = map (\<lambda>(k, vals). (k, vals ! i)) iterkwargs
                in case map_of iterdict ''ind'' of
                     None \<Rightarrow> task (PInt 0) iterdict
                   | Some ind \<Rightarrow> task ind (filter (\<lambda>(k, v). k \<noteq> ''ind'') iterdict))
           [0..<niters])"

fun merge_results :: "sim \<Rightarrow> sim \<Rightarrow> string list \<Rightarrow> error + sim" where
  "merge_results output_sim s [] = Inr output_sim"
| "merge_results output_sim s (key # keys) =
     (case results output_sim of
        None \<Rightarrow> Inl (AttributeError ''results'')
      | Some out_res \<Rightarrow>
     (case dict_getitem out_res key of
        Inl e \<Rightarrow> Inl e
      | Inr a \<Rightarrow>
     (case results s of
        None \<Rightarrow> Inl (AttributeError ''results'')
      | Some res \<Rightarrow>
     (case dict_getitem res key of
        Inl e \<Rightarrow> Inl e
      | Inr b \<Rightarrow>
     (case py_add a b of
        Inl e \<Rightarrow> Inl e
      | Inr c \<Rightarrow>
          merge_results (output_sim\<lparr>results := Some (dict_setitem out_res key c)\<rparr>) s keys)))))"

fun merge_sims :: "sim \<Rightarrow> sim list \<Rightarrow> error + sim" where
  "merge_sims output_sim [] = Inr output_sim"
| "merge_sims output_sim (s # rest) =
     (case people output_sim of
        None \<Rightarrow> Inl (AttributeError ''people'')
      | Some out_people \<Rightarrow>
     (case people s of
        None \<Rightarrow> Inl (AttributeError ''people'')
      | Some s_people \<Rightarrow>
     (case results_keys s of
        None \<Rightarrow> Inl (AttributeError ''results_keys'')
      | Some keys \<Rightarrow>
     (case merge_results (output_sim\<lparr>people := Some (dict_update out_people s_people)\<rparr>) s keys of
        Inl e \<Rightarrow> Inl e
      | Inr output_sim' \<Rightarrow> merge_sims output_sim' rest))))"

definition combine_sims :: "int \<Rightarrow> sim list \<Rightarrow> error + sim" where
  \<comment> \<open>The two writes go to \<^verbatim>\<open>output_sim.pars\<close> itself, not through \<^verbatim>\<open>__setitem__\<close>.\<close>
  "combine_sims n sims =
     bind_err (py_index sims 0) (\<lambda>output_sim.
     let output_sim = output_sim\<lparr>pars := dict_setitem (pars output_sim) ''parallelized'' (PInt n)\<rparr>
     in
     bind_err (dict_getitem (pars output_sim) ''n'') (\<lambda>v.
     bind_err (py_mul v (PInt n)) (\<lambda>v.
     let output_sim = output_sim\<lparr>pars := dict_setitem (pars output_sim) ''n'' v\<rparr>
     in merge_sims output_sim (drop 1 sims))))"

datatype batch_output = Sims "sim list" | Combined sim

text \<open>
  The keyword arguments \<^verbatim>\<open>**kwargs\<close> of \<^verbatim>\<open>multi_run\<close> are overwritten before they are
  read, so they are not a parameter of the model.
\<close>

definition multi_run ::
  "suggester \<Rightarrow> (rng \<Rightarrow> real) \<Rightarrow> (pyval \<Rightarrow> sim \<Rightarrow> error + sim) \<Rightarrow>
   sim option \<Rightarrow> int \<Rightarrow> real \<Rightarrow> string option \<Rightarrow> (string \<times> pyval list) list option \<Rightarrow>
   pyval \<Rightarrow> dict option \<Rightarrow> bool \<Rightarrow> error + batch_output" where
  "multi_run suggest normal run sim n noise noisepar iterpars verbose sim_args combine =
     bind_err (new_sim_of sim sim_args) (\<lambda>sim'.
     bind_err (handle_iterpars n iterpars) (\<lambda>(n, iterpars).
     case n of
       None \<Rightarrow> Inl (TypeError ''unsupported operand type(s) for -: NoneType and int'')
     | Some n \<Rightarrow>
         bind_err (np_arange n) (\<lambda>inds.
          let iterkwargs = dict_update [(''ind'', inds)] iterpars
          in bind_err
            (parallelize
               (\<lambda>ind kw. single_run suggest normal (if sim = None then Sim_run else run)
                            (Some sim') ind noise noisepar verbose sim_args kw)
               iterkwargs)
            (\<lambda>sims. if \<not> combine then Inr (Sims sims)
                     else bind_err (combine_sims n sims) (\<lambda>s. Inr (Combined s))))))"

section \<open>Properties of dictionaries and of the parameter store\<close>

lemma bind_err_simps:
  "bind_err (Inl e) f = Inl e"
  "bind_err (Inr x) f = f x"
  by (simp_all add: bind_err_def)

lemma dict_keys_simps:
  "dict_keys [] = []"
  "dict_keys ((k, v) # d) = k # dict_keys d"
  by (simp_all add: dict_keys_def)

lemma dict_keys_setitem:
  "dict_keys (dict_setitem d k v)
     = (if k \<in> set (dict_keys d) then dict_keys d else dict_keys d @ [k])"
proof (induction d)
  case Nil
  show ?case by (simp add: dict_keys_simps)
next
  case (Cons p d)
  obtain k' v' where p: "p = (k', v')" by (cases p)
  show ?case using Cons.IH by (simp add: p dict_keys_simps)
qed

lemma keys_dict_setitem:
  "set (dict_keys (dict_setitem d k v)) = insert k (set (dict_keys d))"
  by (auto simp: dict_keys_setitem)

lemma keys_dict_setitem_present:
  "k \<in> set (dict_keys d) \<Longrightarrow> dict_keys (dict_setitem d k v) = dict_keys d"
  by (simp add: dict_keys_setitem)

lemma map_of_dict_setitem:
  "map_of (dict_setitem d k v) = (map_of d)(k \<mapsto> v)"
  by (induction d) (auto simp: fun_eq_iff)

lemma map_of_absent:
  "k \<notin> set (dict_keys d) \<Longrightarrow> map_of d k = None"
  by (simp add: dict_keys_def map_of_eq_None_iff)

lemma map_of_present:
  "k \<in> set (dict_keys d) \<Longrightarrow> \<exists>v. map_of d k = Some v"
  by (cases "map_of d k") (auto simp: dict_keys_def map_of_eq_None_iff)

lemma keys_dict_update:
  "set (dict_keys (dict_update d u)) = set (dict_keys d) \<union> set (dict_keys u)"
  unfolding dict_update_def
proof (induction u arbitrary: d)
  case Nil
  then show ?case by (simp add: dict_keys_simps)
next
  case (Cons p u)
  obtain k v where p: "p = (k, v)" by (cases p)
  have "set (dict_keys (fold (\<lambda>(k, v) acc. dict_setitem acc k v) u (dict_setitem d k v)))
        = set (dict_keys (dict_setitem d k v)) \<union> set (dict_keys u)"
    by (rule Cons.IH)
  then show ?case
    by (simp add: p keys_dict_setitem dict_keys_simps)
qed

lemma map_of_dict_update_other:
  "k \<notin> set (dict_keys u) \<Longrightarrow> map_of (dict_update d u) k = map_of d k"
  unfolding dict_update_def
proof (induction u arbitrary: d)
  case Nil
  then show ?case by simp
next
  case (Cons p u)
  obtain k' v where p: "p = (k', v)" by (cases p)
  from Cons.prems have k: "k \<noteq> k'" and ku: "k \<notin> set (dict_keys u)"
    by (auto simp: p dict_keys_simps)
  have "map_of (fold (\<lambda>(k, v) acc. dict_setitem acc k v) u (dict_setitem d k' v)) k
        = map_of (dict_setitem d k' v) k"
    by (rule Cons.IH [OF ku])
  then show ?case using k by (simp add: p map_of_dict_setitem)
qed

lemma getitem_Some:
  "map_of (pars self) k = Some v \<Longrightarrow> ParsObj_getitem self k = Inr v"
  by (simp add: ParsObj_getitem_def dict_getitem_def)

lemma getitem_absent:
  "k \<notin> set (dict_keys (pars self)) \<Longrightarrow> ParsObj_getitem self k = Inl (KeyError k)"
  by (simp add: ParsObj_getitem_def dict_getitem_def map_of_absent)

lemma setitem_present:
  "k \<in> set (dict_keys (pars self)) \<Longrightarrow>
   ParsObj_setitem sg self k v = Inr (self\<lparr>pars := dict_setitem (pars self) k v\<rparr>)"
  by (simp add: ParsObj_setitem_def)
lemma map_of_dict_update:
  "map_of (dict_update d u) k = (case map_of (rev u) k of Some v \<Rightarrow> Some v | None \<Rightarrow> map_of d k)"
  unfolding dict_update_def
proof (induction u arbitrary: d)
  case Nil
  then show ?case by simp
next
  case (Cons p u)
  obtain k' v where p: "p = (k', v)" by (cases p)
  have "map_of (fold (\<lambda>(k, v) acc. dict_setitem acc k v) u (dict_setitem d k' v)) k
        = (case map_of (rev u) k of Some v \<Rightarrow> Some v | None \<Rightarrow> map_of (dict_setitem d k' v) k)"
    by (rule Cons.IH)
  then show ?case
    by (simp add: p map_of_dict_setitem map_add_def split: option.splits)
qed

lemma map_of_dict_update_in:
  assumes "distinct (dict_keys u)" and "(k, v) \<in> set u"
  shows "map_of (dict_update d u) k = Some v"
proof -
  have "distinct (map fst u)" using assms(1) by (simp add: dict_keys_def)
  then have "map_of (rev u) k = Some v"
    using assms(2) by (simp add: map_of_eq_Some_iff rev_map [symmetric])
  then show ?thesis by (simp add: map_of_dict_update)
qed

lemma sublist_str_join:
  "k \<in> set xs \<Longrightarrow> sublist k (str_join sep xs)"
proof (induction sep xs rule: str_join.induct)
  case (1 sep)
  then show ?case by simp
next
  case (2 sep x)
  then show ?case by simp
next
  case (3 sep x y ys)
  show ?case
  proof (cases "k = x")
    case True
    then show ?thesis by simp
  next
    case False
    with 3 have "sublist k (str_join sep (y # ys))" by simp
    then show ?thesis by (simp add: sublist_append)
  qed
qed

section \<open>The noise multiplier\<close>



section \<open>The keys of the parameter store\<close>

text \<open>
  Claim C2 says that \<^verbatim>\<open>update_pars\<close> never introduces a new key. On a store with the
  only key \<^verbatim>\<open>a\<close>, updating with a mapping for \<^verbatim>\<open>b\<close> succeeds and the store then has the
  key \<^verbatim>\<open>b\<close>.
\<close>

theorem update_pars_adds_key:
  "ParsObj_update_pars (Some [(''a'', PInt 1)]) (PDict [(''b'', PInt 2)])
     = Inr [(''a'', PInt 1), (''b'', PInt 2)]
   \<and> ''b'' \<notin> set (dict_keys [(''a'', PInt 1)])
   \<and> ''b'' \<in> set (dict_keys [(''a'', PInt 1), (''b'', PInt 2)])"
  by (simp add: ParsObj_update_pars_def dict_update_def dict_keys_def)

text \<open>
  Claim C2, amended. \<^verbatim>\<open>update_pars\<close> on an existing store with a mapping always succeeds
  and merges it: the keys afterwards are the old keys together with the keys of the
  mapping, a key the mapping does not name keeps its value, and a key the mapping names
  has the mapping's value. Item assignment, when it succeeds, leaves the keys as they
  were.
\<close>

theorem update_pars_merges:
  "ParsObj_update_pars (Some d) (PDict u) = Inr (dict_update d u)
   \<and> set (dict_keys (dict_update d u)) = set (dict_keys d) \<union> set (dict_keys u)
   \<and> (\<forall>k. k \<notin> set (dict_keys u) \<longrightarrow> map_of (dict_update d u) k = map_of d k)
   \<and> (\<forall>k w. distinct (dict_keys u) \<and> (k, w) \<in> set u \<longrightarrow> map_of (dict_update d u) k = Some w)
   \<and> (\<forall>self'. ParsObj_setitem suggest self key v = Inr self' \<longrightarrow>
         dict_keys (pars self') = dict_keys (pars self))"
  by (auto simp: ParsObj_update_pars_def keys_dict_update map_of_dict_update_other
        map_of_dict_update_in ParsObj_setitem_def keys_dict_setitem_present split: if_splits)

theorem update_pars_merges_witness:
  "ParsObj_update_pars (Some [(''a'', PInt 1), (''b'', PInt 2)]) (PDict [(''b'', PInt 5), (''c'', PInt 3)])
     = Inr [(''a'', PInt 1), (''b'', PInt 5), (''c'', PInt 3)]
   \<and> ''a'' \<notin> set (dict_keys [(''b'', PInt 5), (''c'', PInt 3)])
   \<and> map_of (dict_update [(''a'', PInt 1), (''b'', PInt 2)] [(''b'', PInt 5), (''c'', PInt 3)]) ''a''
       = Some (PInt 1)
   \<and> distinct (dict_keys [(''b'', PInt 5), (''c'', PInt 3)])
   \<and> (''c'', PInt 3) \<in> set [(''b'', PInt 5), (''c'', PInt 3)]
   \<and> map_of (dict_update [(''a'', PInt 1), (''b'', PInt 2)] [(''b'', PInt 5), (''c'', PInt 3)]) ''c''
       = Some (PInt 3)
   \<and> ParsObj_setitem (\<lambda>k ks. None) \<lparr>pars = [(''a'', PInt 1), (''b'', PInt 2)]\<rparr> ''b'' (PInt 9)
       = Inr \<lparr>pars = [(''a'', PInt 1), (''b'', PInt 9)]\<rparr>
   \<and> dict_keys (pars \<lparr>pars = [(''a'', PInt 1), (''b'', PInt 9)]\<rparr>)
       = dict_keys (pars \<lparr>pars = [(''a'', PInt 1), (''b'', PInt 2)]\<rparr>)"
  using update_pars_merges [of "[(''a'', PInt 1), (''b'', PInt 2)]" "[(''b'', PInt 5), (''c'', PInt 3)]"
      "\<lambda>k ks. None" "\<lparr>pars = [(''a'', PInt 1), (''b'', PInt 2)]\<rparr>" "''b''" "PInt 9"]
  by (simp add: dict_update_def dict_keys_def ParsObj_setitem_def)

section \<open>Reading and writing an unknown key\<close>

text \<open>
  Claim C3 says that reading an absent key raises an error whose message carries a
  suggestion or the list of keys. In a store whose only key is \<^verbatim>\<open>beta\<close>, reading
  \<^verbatim>\<open>bet\<close> raises \<^verbatim>\<open>KeyError\<close> with the key alone, which does not contain \<^verbatim>\<open>beta\<close>.
\<close>

theorem getitem_no_suggestion:
  "ParsObj_getitem \<lparr>pars = [(''beta'', PFloat 1)]\<rparr> ''bet'' = Inl (KeyError ''bet'')
   \<and> \<not> sublist ''beta'' ''bet''"
  by (simp add: ParsObj_getitem_def dict_getitem_def sublist_Cons_right prefix_code)

text \<open>
  Claim C3, amended. For a key absent from the store, reading raises \<^verbatim>\<open>KeyError\<close> with
  the key alone; writing raises \<^verbatim>\<open>KeyError\<close> with a message that contains the
  suggestion when the suggester returns a non-empty one, and otherwise contains the
  valid keys, joined by newlines.
\<close>

theorem unknown_key_errors:
  assumes "key \<notin> set (dict_keys (pars self))"
  shows "ParsObj_getitem self key = Inl (KeyError key)
    \<and> (\<forall>s. suggest key (dict_keys (pars self)) = Some s \<and> s \<noteq> [] \<longrightarrow>
          (\<exists>msg. ParsObj_setitem suggest self key v = Inl (KeyError msg) \<and> sublist s msg))
    \<and> (suggest key (dict_keys (pars self)) = None
          \<or> suggest key (dict_keys (pars self)) = Some [] \<longrightarrow>
          (\<exists>msg. ParsObj_setitem suggest self key v = Inl (KeyError msg)
             \<and> sublist (str_join [CHR 0x0A] (dict_keys (pars self))) msg
             \<and> (\<forall>k \<in> set (dict_keys (pars self)). sublist k msg)))"
proof (intro conjI allI impI)
  show "ParsObj_getitem self key = Inl (KeyError key)"
    using assms by (rule getitem_absent)
next
  fix s
  assume s: "suggest key (dict_keys (pars self)) = Some s \<and> s \<noteq> []"
  then obtain c cs where cs: "s = c # cs" by (cases s) auto
  let ?msg = "''Key '' @ key @ '' not found; did you mean '' @ [CHR 0x22] @ s @ [CHR 0x22] @ ''?''"
  have "ParsObj_setitem suggest self key v = Inl (KeyError ?msg)"
    using assms s by (simp add: ParsObj_setitem_def setitem_errormsg_def cs)
  moreover have "sublist s ?msg"
    using sublist_appendI [of s "''Key '' @ key @ '' not found; did you mean '' @ [CHR 0x22]"
        "[CHR 0x22] @ ''?''"] by simp
  ultimately show "\<exists>msg. ParsObj_setitem suggest self key v = Inl (KeyError msg) \<and> sublist s msg"
    by blast
next
  assume n: "suggest key (dict_keys (pars self)) = None
          \<or> suggest key (dict_keys (pars self)) = Some []"
  let ?keys = "str_join [CHR 0x0A] (dict_keys (pars self))"
  let ?msg = "''Key '' @ key @ '' not found; available keys:'' @ [CHR 0x0A] @ ?keys"
  have m: "ParsObj_setitem suggest self key v = Inl (KeyError ?msg)"
    using assms n by (auto simp: ParsObj_setitem_def setitem_errormsg_def)
  have j: "sublist ?keys ?msg"
    using sublist_append_leftI [of ?keys "''Key '' @ key @ '' not found; available keys:'' @ [CHR 0x0A]"]
    by simp
  have "\<forall>k \<in> set (dict_keys (pars self)). sublist k ?msg"
  proof
    fix k assume "k \<in> set (dict_keys (pars self))"
    then have "sublist k ?keys" by (rule sublist_str_join)
    then show "sublist k ?msg" using j by (rule sublist_order.order_trans)
  qed
  with m j show "\<exists>msg. ParsObj_setitem suggest self key v = Inl (KeyError msg)
             \<and> sublist (str_join [CHR 0x0A] (dict_keys (pars self))) msg
             \<and> (\<forall>k \<in> set (dict_keys (pars self)). sublist k msg)"
    by blast
qed

theorem unknown_key_errors_witness:
  "''bet'' \<notin> set (dict_keys (pars \<lparr>pars = [(''beta'', PFloat 1)]\<rparr>))
   \<and> ParsObj_getitem \<lparr>pars = [(''beta'', PFloat 1)]\<rparr> ''bet'' = Inl (KeyError ''bet'')
   \<and> (\<exists>msg. ParsObj_setitem (\<lambda>k ks. Some ''beta'') \<lparr>pars = [(''beta'', PFloat 1)]\<rparr> ''bet'' PNone
          = Inl (KeyError msg) \<and> sublist ''beta'' msg)
   \<and> (\<exists>msg. ParsObj_setitem (\<lambda>k ks. None) \<lparr>pars = [(''beta'', PFloat 1)]\<rparr> ''bet'' PNone
          = Inl (KeyError msg) \<and> sublist ''beta'' msg)"
proof -
  have h: "''bet'' \<notin> set (dict_keys (pars \<lparr>pars = [(''beta'', PFloat 1)]\<rparr>))"
    by (simp add: dict_keys_def)
  show ?thesis
    using h
      unknown_key_errors [OF h, of "\<lambda>k ks. Some ''beta''" PNone]
      unknown_key_errors [OF h, of "\<lambda>k ks. None" PNone]
    by (simp add: dict_keys_def)
qed

section \<open>Seeding\<close>

text \<open>
  Claim C5. For every simulation and every seed other than \<^verbatim>\<open>None\<close>, \<^verbatim>\<open>set_seed\<close> with
  that seed and \<^verbatim>\<open>randomize=True\<close> raises the conflicting-argument error. With neither
  a seed nor \<^verbatim>\<open>randomize\<close>, the generator is reseeded with the stored seed and the
  simulation is unchanged. With a seed and \<^verbatim>\<open>randomize\<close> false, the seed is stored, the
  other parameters keep their values, the generator is seeded with it, and a later
  \<^verbatim>\<open>set_seed()\<close> uses it again. The last two presuppose that the simulation has a
  parameter \<^verbatim>\<open>seed\<close>.
\<close>

theorem set_seed_cases:
  "(seed \<noteq> PNone \<longrightarrow>
      Sim_set_seed suggest self seed True
        = Inl (ValueError ''You can supply a seed or set randomize=True, but not both''))
   \<and> (\<forall>v. map_of (pars self) ''seed'' = Some v \<longrightarrow>
         Sim_set_seed suggest self PNone False = Inr (self, utils_set_seed v))
   \<and> (seed \<noteq> PNone \<and> ''seed'' \<in> set (dict_keys (pars self)) \<longrightarrow>
        (\<exists>self'. Sim_set_seed suggest self seed False = Inr (self', utils_set_seed seed)
           \<and> ParsObj_getitem self' ''seed'' = Inr seed
           \<and> (\<forall>k. k \<noteq> ''seed'' \<longrightarrow> ParsObj_getitem self' k = ParsObj_getitem self k)
           \<and> Sim_set_seed suggest self' PNone False = Inr (self', utils_set_seed seed)))"
proof (intro conjI allI impI)
  assume "seed \<noteq> PNone"
  then show "Sim_set_seed suggest self seed True
        = Inl (ValueError ''You can supply a seed or set randomize=True, but not both'')"
    by (simp add: Sim_set_seed_def)
next
  fix v assume "map_of (pars self) ''seed'' = Some v"
  then show "Sim_set_seed suggest self PNone False = Inr (self, utils_set_seed v)"
    by (simp add: Sim_set_seed_def getitem_Some bind_err_simps)
next
  assume a: "seed \<noteq> PNone \<and> ''seed'' \<in> set (dict_keys (pars self))"
  let ?s = "self\<lparr>pars := dict_setitem (pars self) ''seed'' seed\<rparr>"
  have 1: "Sim_set_seed suggest self seed False = Inr (?s, utils_set_seed seed)"
    using a by (simp add: Sim_set_seed_def setitem_present bind_err_simps)
  have m: "map_of (pars ?s) ''seed'' = Some seed"
    by (simp add: map_of_dict_setitem)
  have 2: "ParsObj_getitem ?s ''seed'' = Inr seed"
    using m by (rule getitem_Some)
  have 3: "\<forall>k. k \<noteq> ''seed'' \<longrightarrow> ParsObj_getitem ?s k = ParsObj_getitem self k"
    by (simp add: ParsObj_getitem_def dict_getitem_def map_of_dict_setitem)
  have 4: "Sim_set_seed suggest ?s PNone False = Inr (?s, utils_set_seed seed)"
    using 2 by (simp add: Sim_set_seed_def bind_err_simps)
  from 1 2 3 4 show "\<exists>self'. Sim_set_seed suggest self seed False = Inr (self', utils_set_seed seed)
           \<and> ParsObj_getitem self' ''seed'' = Inr seed
           \<and> (\<forall>k. k \<noteq> ''seed'' \<longrightarrow> ParsObj_getitem self' k = ParsObj_getitem self k)
           \<and> Sim_set_seed suggest self' PNone False = Inr (self', utils_set_seed seed)"
    by blast
qed

theorem set_seed_cases_witness:
  "PInt 7 \<noteq> PNone
   \<and> Sim_set_seed (\<lambda>k ks. None) \<lparr>pars = [(''seed'', PInt 3)], people = None, uids = None, results = None, results_keys = None\<rparr> (PInt 7) True
        = Inl (ValueError ''You can supply a seed or set randomize=True, but not both'')
   \<and> map_of (pars \<lparr>pars = [(''seed'', PInt 3)], people = None, uids = None, results = None, results_keys = None\<rparr>) ''seed'' = Some (PInt 3)
   \<and> Sim_set_seed (\<lambda>k ks. None) \<lparr>pars = [(''seed'', PInt 3)], people = None, uids = None, results = None, results_keys = None\<rparr> PNone False
        = Inr (\<lparr>pars = [(''seed'', PInt 3)], people = None, uids = None, results = None, results_keys = None\<rparr>, utils_set_seed (PInt 3))
   \<and> ''seed'' \<in> set (dict_keys (pars \<lparr>pars = [(''seed'', PInt 3)], people = None, uids = None, results = None, results_keys = None\<rparr>))
   \<and> Sim_set_seed (\<lambda>k ks. None) \<lparr>pars = [(''seed'', PInt 3)], people = None, uids = None, results = None, results_keys = None\<rparr> (PInt 7) False
        = Inr (\<lparr>pars = [(''seed'', PInt 7)], people = None, uids = None, results = None, results_keys = None\<rparr>, utils_set_seed (PInt 7))"
  using set_seed_cases [of "PInt 7" "\<lambda>k ks. None"
      "\<lparr>pars = [(''seed'', PInt 3)], people = None, uids = None, results = None, results_keys = None\<rparr>"]
  by (simp add: dict_keys_def Sim_set_seed_def ParsObj_setitem_def bind_err_def)

text \<open>
  A simulation without the parameter \<^verbatim>\<open>seed\<close> has no stored seed: both calls raise
  the store's error for an unknown key.
\<close>

lemma set_seed_without_seed:
  assumes "''seed'' \<notin> set (dict_keys (pars self))"
  shows "Sim_set_seed suggest self PNone False = Inl (KeyError ''seed'')"
    and "seed \<noteq> PNone \<Longrightarrow> Sim_set_seed suggest self seed False
           = Inl (KeyError (setitem_errormsg suggest (pars self) ''seed''))"
  using assms
  by (simp_all add: Sim_set_seed_def getitem_absent ParsObj_setitem_def bind_err_simps)

section \<open>Looking up an agent\<close>

lemma py_index_invalid:
  "ind < - int (length xs) \<or> int (length xs) \<le> ind \<Longrightarrow>
   py_index xs ind = Inl (IndexError ''list index out of range'')"
  by (auto simp: py_index_def)

lemma py_index_valid:
  assumes "- int (length xs) \<le> ind" and "ind < int (length xs)"
  shows "py_index xs ind = Inr (xs ! nat (ind mod int (length xs)))"
proof (cases "ind < 0")
  case True
  then have "ind mod int (length xs) = ind + int (length xs)"
    using assms by (smt (verit) mod_add_self2 mod_pos_pos_trivial)
  then show ?thesis using True assms by (simp add: py_index_def)
next
  case False
  then have "ind mod int (length xs) = ind"
    using assms by simp
  then show ?thesis using False assms by (simp add: py_index_def)
qed

text \<open>
  Claim C10. For every simulation and every index that does not address an entry of the
  identifier table, \<^verbatim>\<open>get_person\<close> is an error; for every index that does, it returns the
  agent that \<^verbatim>\<open>people\<close> maps the identifier at that position to.
\<close>

theorem get_person_index:
  "(\<not> valid_index self ind \<longrightarrow> (\<exists>e. Sim_get_person self ind = Inl e))
   \<and> (\<forall>ps us p. people self = Some ps \<and> uids self = Some us \<and> valid_index self ind
         \<and> map_of ps (us ! nat (ind mod int (length us))) = Some p
       \<longrightarrow> Sim_get_person self ind = Inr p)"
proof (intro conjI allI impI)
  assume n: "\<not> valid_index self ind"
  show "\<exists>e. Sim_get_person self ind = Inl e"
  proof (cases "people self")
    case None
    then show ?thesis by (simp add: Sim_get_person_def)
  next
    case (Some ps)
    show ?thesis
    proof (cases "uids self")
      case None
      then show ?thesis using Some by (simp add: Sim_get_person_def)
    next
      case (Some us)
      with n have "ind < - int (length us) \<or> int (length us) \<le> ind"
        by (auto simp: valid_index_def)
      then have "py_index us ind = Inl (IndexError ''list index out of range'')"
        by (rule py_index_invalid)
      then show ?thesis using Some \<open>people self = Some ps\<close>
        by (simp add: Sim_get_person_def bind_err_simps)
    qed
  qed
next
  fix ps us p
  assume a: "people self = Some ps \<and> uids self = Some us \<and> valid_index self ind
         \<and> map_of ps (us ! nat (ind mod int (length us))) = Some p"
  then have "py_index us ind = Inr (us ! nat (ind mod int (length us)))"
    by (intro py_index_valid) (auto simp: valid_index_def)
  then show "Sim_get_person self ind = Inr p"
    using a by (simp add: Sim_get_person_def bind_err_simps dict_getitem_def)
qed

theorem get_person_index_witness:
  "\<not> valid_index \<lparr>pars = [], people = Some [(''u1'', \<lparr>pars = [(''age'', PInt 30)]\<rparr>), (''u2'', \<lparr>pars = [(''age'', PInt 40)]\<rparr>)],
        uids = Some [''u1'', ''u2''], results = None, results_keys = None\<rparr> 2
   \<and> (\<exists>e. Sim_get_person \<lparr>pars = [], people = Some [(''u1'', \<lparr>pars = [(''age'', PInt 30)]\<rparr>), (''u2'', \<lparr>pars = [(''age'', PInt 40)]\<rparr>)],
        uids = Some [''u1'', ''u2''], results = None, results_keys = None\<rparr> 2 = Inl e)
   \<and> valid_index \<lparr>pars = [], people = Some [(''u1'', \<lparr>pars = [(''age'', PInt 30)]\<rparr>), (''u2'', \<lparr>pars = [(''age'', PInt 40)]\<rparr>)],
        uids = Some [''u1'', ''u2''], results = None, results_keys = None\<rparr> 1
   \<and> Sim_get_person \<lparr>pars = [], people = Some [(''u1'', \<lparr>pars = [(''age'', PInt 30)]\<rparr>), (''u2'', \<lparr>pars = [(''age'', PInt 40)]\<rparr>)],
        uids = Some [''u1'', ''u2''], results = None, results_keys = None\<rparr> 1 = Inr \<lparr>pars = [(''age'', PInt 40)]\<rparr>"
  using get_person_index [of "\<lparr>pars = [], people = Some [(''u1'', \<lparr>pars = [(''age'', PInt 30)]\<rparr>), (''u2'', \<lparr>pars = [(''age'', PInt 40)]\<rparr>)],
        uids = Some [''u1'', ''u2''], results = None, results_keys = None\<rparr>" 2]
    get_person_index [of "\<lparr>pars = [], people = Some [(''u1'', \<lparr>pars = [(''age'', PInt 30)]\<rparr>), (''u2'', \<lparr>pars = [(''age'', PInt 40)]\<rparr>)],
        uids = Some [''u1'', ''u2''], results = None, results_keys = None\<rparr>" 1]
  by (simp add: valid_index_def)

section \<open>Overrides of single\_run\<close>

lemmas eval_defs = single_run_def prepare_sim_def apply_noise_def new_sim_of_def bind_err_def
  ParsObj_getitem_def ParsObj_setitem_def dict_getitem_def dict_keys_def Sim_set_seed_def
  utils_set_seed_def guess_noisepar_def found_in_def guesses_def noisefactor_def py_add_def
  py_mul_def py_ge1_def as_int_def as_real_def as_np_int_def as_count_def in_int64_def
  wrap64_def as_str_def as_list_def is_int64_def

text \<open>
  Claim C1 says that an override of an existing parameter is applied. With
  \<^verbatim>\<open>verbose=0\<close> the override \<^verbatim>\<open>n_days=10\<close> is accepted and the replicate keeps
  \<^verbatim>\<open>n_days = 30\<close>: the assignment of line 205 is inside the branch \<^verbatim>\<open>verbose>=1\<close>.
\<close>

theorem single_run_override_dropped:
  "single_run (\<lambda>k ks. None) (\<lambda>r. 0) (\<lambda>v s. Inr s)
     (Some \<lparr>pars = [(''seed'', PInt 1), (''verbose'', PInt 0), (''beta'', PFloat 2), (''n_days'', PInt 30)],
         people = None, uids = None, results = None, results_keys = None\<rparr>)
     (PInt 0) 0 None (PInt 0) None [(''n_days'', PInt 10)]
   = Inr \<lparr>pars = [(''seed'', PInt 1), (''verbose'', PInt 0), (''beta'', PFloat 2), (''n_days'', PInt 30)],
         people = None, uids = None, results = None, results_keys = None\<rparr>"
  by (simp add: eval_defs)

text \<open>
  The same for every override list of known names, whenever \<^verbatim>\<open>verbose>=1\<close> is false.
  When it is true the override is applied, and an unknown name is refused in both cases.
\<close>

lemma apply_kwargs_quiet:
  "py_ge1 verbose = Inr False \<Longrightarrow> set (dict_keys kwargs) \<subseteq> set (dict_keys (pars new_sim)) \<Longrightarrow>
   apply_kwargs suggest verbose new_sim kwargs = Inr new_sim"
  by (induction kwargs) (auto simp: dict_keys_simps)

lemma apply_kwargs_chatty:
  "py_ge1 verbose = Inr True \<Longrightarrow> key \<in> set (dict_keys (pars new_sim)) \<Longrightarrow>
   apply_kwargs suggest verbose new_sim [(key, val)]
     = Inr (new_sim\<lparr>pars := dict_setitem (pars new_sim) key val\<rparr>)"
  by (simp add: ParsObj_setitem_def)

lemma apply_kwargs_unknown:
  "key \<notin> set (dict_keys (pars new_sim)) \<Longrightarrow>
   apply_kwargs suggest verbose new_sim ((key, val) # rest)
     = Inl (KeyError (''Could not set key '' @ key @ '': not a valid parameter name''))"
  by simp

section \<open>The noise parameter\<close>


lemma apply_noise_no_template:
  "apply_noise suggest normal None noise None new_sim rng
     = Inl (AttributeError ''NoneType object has no attribute pars'')"
  by (simp add: apply_noise_def guess_noisepar_def bind_err_simps)

text \<open>
  Claim C4. A call of \<^verbatim>\<open>single_run\<close> with no template and no noise parameter never
  returns: whenever the simulation is constructed and reseeded, the auto-detection reads
  \<^verbatim>\<open>sim.pars\<close> of the argument \<^verbatim>\<open>sim\<close>, which is \<^verbatim>\<open>None\<close>, and the call fails with the
  attribute error, whatever candidates the constructed simulation has.
\<close>

theorem single_run_no_template:
  "(\<exists>e. single_run suggest normal run None ind noise None verbose sim_args kwargs = Inl e)
   \<and> (\<forall>ns vb r. prepare_sim suggest None ind verbose sim_args = Inr (ns, vb, r) \<longrightarrow>
         single_run suggest normal run None ind noise None verbose sim_args kwargs
           = Inl (AttributeError ''NoneType object has no attribute pars''))"
proof (intro conjI allI impI)
  show "\<exists>e. single_run suggest normal run None ind noise None verbose sim_args kwargs = Inl e"
  proof (cases "prepare_sim suggest None ind verbose sim_args")
    case (Inl e)
    then show ?thesis by (simp add: single_run_def bind_err_simps)
  next
    case (Inr t)
    obtain ns vb r where "t = (ns, vb, r)" by (cases t)
    with Inr show ?thesis
      by (simp add: single_run_def bind_err_simps apply_noise_no_template)
  qed
next
  fix ns vb r
  assume "prepare_sim suggest None ind verbose sim_args = Inr (ns, vb, r)"
  then show "single_run suggest normal run None ind noise None verbose sim_args kwargs
           = Inl (AttributeError ''NoneType object has no attribute pars'')"
    by (simp add: single_run_def bind_err_simps apply_noise_no_template)
qed

theorem single_run_no_template_witness:
  "prepare_sim (\<lambda>k ks. None) None (PInt 0) PNone
      (Some [(''pars'', PDict [(''seed'', PInt 1), (''verbose'', PInt 0), (''beta'', PFloat 2)])])
     = Inr (\<lparr>pars = [(''seed'', PInt 1), (''verbose'', PInt 0), (''beta'', PFloat 2)],
              people = None, uids = None, results = None, results_keys = None\<rparr>,
            PInt 0, utils_set_seed (PInt 1))
   \<and> found_in [(''seed'', PInt 1), (''verbose'', PInt 0), (''beta'', PFloat 2)] = [''beta'']
   \<and> single_run (\<lambda>k ks. None) (\<lambda>r. 0) (\<lambda>v s. Inr s) None (PInt 0) 0 None PNone
      (Some [(''pars'', PDict [(''seed'', PInt 1), (''verbose'', PInt 0), (''beta'', PFloat 2)])]) []
     = Inl (AttributeError ''NoneType object has no attribute pars'')"
proof -
  have p: "prepare_sim (\<lambda>k ks. None) None (PInt 0) PNone
      (Some [(''pars'', PDict [(''seed'', PInt 1), (''verbose'', PInt 0), (''beta'', PFloat 2)])])
     = Inr (\<lparr>pars = [(''seed'', PInt 1), (''verbose'', PInt 0), (''beta'', PFloat 2)],
              people = None, uids = None, results = None, results_keys = None\<rparr>,
            PInt 0, utils_set_seed (PInt 1))"
    by (simp add: eval_defs Sim_init_def ParsObj_update_pars_def)
  have f: "found_in [(''seed'', PInt 1), (''verbose'', PInt 0), (''beta'', PFloat 2)] = [''beta'']"
    by (simp add: found_in_def guesses_def dict_keys_def)
  show ?thesis
    using p f single_run_no_template [of "\<lambda>k ks. None" "\<lambda>r. 0" "\<lambda>v s. Inr s" "PInt 0" 0 PNone
        "Some [(''pars'', PDict [(''seed'', PInt 1), (''verbose'', PInt 0), (''beta'', PFloat 2)])]" "[]"]
    by simp
qed

lemma found_in_set: "set (found_in d) = set guesses \<inter> set (dict_keys d)"
  by (auto simp: found_in_def)

lemma found_in_distinct: "distinct (found_in d)"
  by (simp add: found_in_def guesses_def)

lemma length_found_in: "length (found_in d) = card (set guesses \<inter> set (dict_keys d))"
  using distinct_card [OF found_in_distinct, of d] by (simp add: found_in_set)

lemma found_in_single:
  assumes "set guesses \<inter> set (dict_keys d) = {g}"
  shows "found_in d = [g]"
proof -
  have l: "length (found_in d) = 1"
    using assms by (simp add: length_found_in)
  then obtain x where x: "found_in d = [x]"
    by (cases "found_in d") auto
  have "set (found_in d) = {g}" using assms by (simp add: found_in_set)
  with x show ?thesis by simp
qed

lemma guess_noisepar_single:
  "set guesses \<inter> set (dict_keys (pars S)) = {g} \<Longrightarrow> guess_noisepar (Some S) = Inr g"
  by (simp add: guess_noisepar_def found_in_single)

lemma guess_noisepar_ambiguous:
  "card (set guesses \<inter> set (dict_keys (pars S))) \<noteq> 1 \<Longrightarrow>
   guess_noisepar (Some S) = Inl (KeyError (guess_errormsg (found_in (pars S))))"
  by (simp add: guess_noisepar_def length_found_in Let_def)

text \<open>
  Claim C7. For a template with exactly one of the candidates \<^verbatim>\<open>r_contact\<close>, \<^verbatim>\<open>r0\<close>,
  \<^verbatim>\<open>beta\<close> among its parameters, the auto-detection selects it: \<^verbatim>\<open>single_run\<close> without
  a noise parameter does what it does with that parameter named. For a template with
  none or with two or more, \<^verbatim>\<open>single_run\<close>, once the replicate is reseeded, raises the
  error whose message lists the candidates and those found.
\<close>

theorem noisepar_autodetect:
  "(\<forall>g. set guesses \<inter> set (dict_keys (pars S)) = {g} \<longrightarrow>
        guess_noisepar (Some S) = Inr g
      \<and> single_run suggest normal run (Some S) ind noise None verbose sim_args kwargs
          = single_run suggest normal run (Some S) ind noise (Some g) verbose sim_args kwargs)
   \<and> (\<forall>ns vb r. card (set guesses \<inter> set (dict_keys (pars S))) \<noteq> 1
          \<and> prepare_sim suggest (Some S) ind verbose sim_args = Inr (ns, vb, r) \<longrightarrow>
        single_run suggest normal run (Some S) ind noise None verbose sim_args kwargs
          = Inl (KeyError (guess_errormsg (found_in (pars S))))
      \<and> set (found_in (pars S)) = set guesses \<inter> set (dict_keys (pars S)))"
proof (intro conjI allI impI)
  fix g assume g: "set guesses \<inter> set (dict_keys (pars S)) = {g}"
  show "guess_noisepar (Some S) = Inr g"
    using g by (rule guess_noisepar_single)
  then show "single_run suggest normal run (Some S) ind noise None verbose sim_args kwargs
          = single_run suggest normal run (Some S) ind noise (Some g) verbose sim_args kwargs"
    by (simp add: single_run_def apply_noise_def)
next
  fix ns vb r
  assume a: "card (set guesses \<inter> set (dict_keys (pars S))) \<noteq> 1
          \<and> prepare_sim suggest (Some S) ind verbose sim_args = Inr (ns, vb, r)"
  then have "guess_noisepar (Some S) = Inl (KeyError (guess_errormsg (found_in (pars S))))"
    by (simp add: guess_noisepar_ambiguous)
  then have "apply_noise suggest normal (Some S) noise None ns r
               = Inl (KeyError (guess_errormsg (found_in (pars S))))"
    by (simp add: apply_noise_def bind_err_simps)
  then show "single_run suggest normal run (Some S) ind noise None verbose sim_args kwargs
          = Inl (KeyError (guess_errormsg (found_in (pars S))))"
    using a by (simp add: single_run_def bind_err_simps)
next
  fix ns vb r
  show "set (found_in (pars S)) = set guesses \<inter> set (dict_keys (pars S))"
    by (rule found_in_set)
qed

theorem noisepar_autodetect_witness:
  "set guesses \<inter> set (dict_keys (pars \<lparr>pars = [(''seed'', PInt 1), (''verbose'', PInt 0), (''beta'', PFloat 2)],
         people = None, uids = None, results = None, results_keys = None\<rparr>)) = {''beta''}
   \<and> guess_noisepar (Some \<lparr>pars = [(''seed'', PInt 1), (''verbose'', PInt 0), (''beta'', PFloat 2)],
         people = None, uids = None, results = None, results_keys = None\<rparr>) = Inr ''beta''
   \<and> single_run (\<lambda>k ks. None) (\<lambda>r. 1) (\<lambda>v s. Inr s)
        (Some \<lparr>pars = [(''seed'', PInt 1), (''verbose'', PInt 0), (''beta'', PFloat 2)],
         people = None, uids = None, results = None, results_keys = None\<rparr>) (PInt 0) (1 / 2) None PNone None []
      = Inr \<lparr>pars = [(''seed'', PInt 1), (''verbose'', PInt 0), (''beta'', PFloat 3)],
         people = None, uids = None, results = None, results_keys = None\<rparr>
   \<and> card (set guesses \<inter> set (dict_keys (pars \<lparr>pars = [(''seed'', PInt 1), (''verbose'', PInt 0), (''beta'', PFloat 2), (''r0'', PFloat 3)],
         people = None, uids = None, results = None, results_keys = None\<rparr>))) \<noteq> 1
   \<and> single_run (\<lambda>k ks. None) (\<lambda>r. 1) (\<lambda>v s. Inr s)
        (Some \<lparr>pars = [(''seed'', PInt 1), (''verbose'', PInt 0), (''beta'', PFloat 2), (''r0'', PFloat 3)],
         people = None, uids = None, results = None, results_keys = None\<rparr>) (PInt 0) (1 / 2) None PNone None []
      = Inl (KeyError (guess_errormsg [''r0'', ''beta'']))"
proof -
  let ?A = "\<lparr>pars = [(''seed'', PInt 1), (''verbose'', PInt 0), (''beta'', PFloat 2)],
         people = None, uids = None, results = None, results_keys = None\<rparr>"
  let ?B = "\<lparr>pars = [(''seed'', PInt 1), (''verbose'', PInt 0), (''beta'', PFloat 2), (''r0'', PFloat 3)],
         people = None, uids = None, results = None, results_keys = None\<rparr>"
  have a: "set guesses \<inter> set (dict_keys (pars ?A)) = {''beta''}"
    by (auto simp: guesses_def dict_keys_def)
  have e: "single_run (\<lambda>k ks. None) (\<lambda>r. 1) (\<lambda>v s. Inr s) (Some ?A) (PInt 0) (1 / 2)
             (Some ''beta'') PNone None []
      = Inr \<lparr>pars = [(''seed'', PInt 1), (''verbose'', PInt 0), (''beta'', PFloat 3)],
         people = None, uids = None, results = None, results_keys = None\<rparr>"
    by (simp add: eval_defs)
  have "set guesses \<inter> set (dict_keys (pars ?B)) = {''r0'', ''beta''}"
    by (auto simp: guesses_def dict_keys_def)
  then have b: "card (set guesses \<inter> set (dict_keys (pars ?B))) \<noteq> 1"
    by simp
  have p: "prepare_sim (\<lambda>k ks. None) (Some ?B) (PInt 0) PNone None
      = Inr (?B, PInt 0, utils_set_seed (PInt 1))"
    by (simp add: eval_defs)
  have f: "found_in (pars ?B) = [''r0'', ''beta'']"
    by (simp add: found_in_def guesses_def dict_keys_def)
  show ?thesis
    using a b e p f
      noisepar_autodetect [of ?A "\<lambda>k ks. None" "\<lambda>r. 1" "\<lambda>v s. Inr s" "PInt 0" "1 / 2" PNone None "[]"]
      noisepar_autodetect [of ?B "\<lambda>k ks. None" "\<lambda>r. 1" "\<lambda>v s. Inr s" "PInt 0" "1 / 2" PNone None "[]"]
    by simp
qed

section \<open>The replicate count of a batch\<close>

lemma iterpars_n_uniform:
  "\<forall>p \<in> set ip. length (snd p) = m \<Longrightarrow> iterpars_n (Some m) ip = Inr (Some m)"
  by (induction ip) (auto simp: Let_def)

lemma iterpars_n_first:
  assumes "ip \<noteq> []" and "\<forall>p \<in> set ip. length (snd p) = L"
  shows "iterpars_n None ip = Inr (Some L)"
proof -
  obtain k v rest where ip: "ip = (k, v) # rest"
    using assms(1) by (cases ip) auto
  have "length v = L" and "\<forall>p \<in> set rest. length (snd p) = L"
    using assms(2) by (auto simp: ip)
  then show ?thesis
    by (simp add: ip Let_def iterpars_n_uniform)
qed

lemma iterpars_n_mismatch:
  "\<exists>p \<in> set ip. length (snd p) \<noteq> m \<Longrightarrow>
   \<exists>b. m \<noteq> b \<and> iterpars_n (Some m) ip = Inl (ValueError (length_errormsg m b))"
proof (induction ip)
  case Nil
  then show ?case by simp
next
  case (Cons p ip)
  obtain k v where p: "p = (k, v)" by (cases p)
  show ?case
  proof (cases "length v = m")
    case True
    with Cons.prems have "\<exists>q \<in> set ip. length (snd q) \<noteq> m"
      by (auto simp: p)
    then have "\<exists>b. m \<noteq> b \<and> iterpars_n (Some m) ip = Inl (ValueError (length_errormsg m b))"
      by (rule Cons.IH)
    then show ?thesis using True by (simp add: p Let_def)
  next
    case False
    then show ?thesis by (auto simp: p Let_def)
  qed
qed

lemma iterpars_n_inconsistent:
  assumes "\<exists>p \<in> set ip. \<exists>q \<in> set ip. length (snd p) \<noteq> length (snd q)"
  shows "\<exists>a b. a \<noteq> b \<and> iterpars_n None ip = Inl (ValueError (length_errormsg a b))"
proof -
  obtain k v rest where ip: "ip = (k, v) # rest"
    using assms by (cases ip) auto
  have "\<exists>q \<in> set rest. length (snd q) \<noteq> length v"
  proof (rule ccontr)
    assume "\<not> (\<exists>q \<in> set rest. length (snd q) \<noteq> length v)"
    then have "\<forall>q \<in> set ip. length (snd q) = length v"
      by (auto simp: ip)
    with assms show False by auto
  qed
  then obtain b where "length v \<noteq> b"
    and "iterpars_n (Some (length v)) rest = Inl (ValueError (length_errormsg (length v) b))"
    using iterpars_n_mismatch [of rest "length v"] by blast
  then show ?thesis by (auto simp: ip Let_def)
qed

lemma map_err_length:
  "map_err f xs = Inr ys \<Longrightarrow> length ys = length xs"
  by (induction xs arbitrary: ys) (auto split: sum.splits)

lemma dict_update_head:
  "\<exists>v' d'. dict_update ((k, v) # d) u = (k, v') # d' \<and> (v' = v \<or> (k, v') \<in> set u)"
  unfolding dict_update_def
proof (induction u arbitrary: v d)
  case Nil
  then show ?case by simp
next
  case (Cons p u)
  obtain k1 v1 where p: "p = (k1, v1)" by (cases p)
  show ?case
  proof (cases "k = k1")
    case True
    have "\<exists>v' d'. fold (\<lambda>(k, v) acc. dict_setitem acc k v) u ((k, v1) # d) = (k, v') # d'
            \<and> (v' = v1 \<or> (k, v') \<in> set u)"
      by (rule Cons.IH)
    then show ?thesis using True by (auto simp: p)
  next
    case False
    have "\<exists>v' d'. fold (\<lambda>(k, v) acc. dict_setitem acc k v) u ((k, v) # dict_setitem d k1 v1)
             = (k, v') # d' \<and> (v' = v \<or> (k, v') \<in> set u)"
      by (rule Cons.IH)
    then show ?thesis using False by (auto simp: p)
  qed
qed

lemma np_arange_length:
  "np_arange n = Inr xs \<Longrightarrow> length xs = nat n"
  by (auto simp: np_arange_def split: if_splits)

lemma parallelize_length:
  "parallelize task ((k, vals) # rest) = Inr ys \<Longrightarrow> length ys = length vals"
  by (auto simp: parallelize_def Let_def dest: map_err_length split: if_splits)

lemmas batch_defs = multi_run_def handle_iterpars_def parallelize_def dict_update_def
  np_arange_def Let_def length_errormsg_def digit_char_def

text \<open>
  Claim C9. When the sequences of \<^verbatim>\<open>iterpars\<close> do not all have the same length,
  \<^verbatim>\<open>multi_run\<close> on an available template raises the length-mismatch error, naming two
  different lengths; the error is the same for every run hook, every random draw and
  every other argument, so no replicate was dispatched. When \<^verbatim>\<open>iterpars\<close> is not empty
  and all sequences have the length \<open>L\<close>, the replicate count is \<open>L\<close>, and a batch that
  returns without combination returns \<open>L\<close> simulations.
\<close>

theorem iterpars_lengths:
  "(\<forall>S'. new_sim_of sim sim_args = Inr S'
        \<and> (\<exists>p \<in> set ip. \<exists>q \<in> set ip. length (snd p) \<noteq> length (snd q)) \<longrightarrow>
      (\<exists>a b. a \<noteq> b \<and> (\<forall>suggest normal run n noise noisepar verbose combine.
          multi_run suggest normal run sim n noise noisepar (Some ip) verbose sim_args combine
            = Inl (ValueError (length_errormsg a b)))))
   \<and> (\<forall>L. ip \<noteq> [] \<and> (\<forall>p \<in> set ip. length (snd p) = L) \<longrightarrow>
        handle_iterpars n0 (Some ip) = Inr (Some (int L), ip)
      \<and> (\<forall>sims. multi_run suggest0 normal0 run0 sim n0 noise0 noisepar0 (Some ip) verbose0 sim_args False
                   = Inr (Sims sims) \<longrightarrow> length sims = L))"
proof (intro conjI allI impI)
  fix S'
  assume a: "new_sim_of sim sim_args = Inr S'
        \<and> (\<exists>p \<in> set ip. \<exists>q \<in> set ip. length (snd p) \<noteq> length (snd q))"
  then obtain a' b where ab: "a' \<noteq> b"
    and e: "iterpars_n None ip = Inl (ValueError (length_errormsg a' b))"
    using iterpars_n_inconsistent [of ip] by blast
  have "\<forall>suggest normal run n noise noisepar verbose combine.
          multi_run suggest normal run sim n noise noisepar (Some ip) verbose sim_args combine
            = Inl (ValueError (length_errormsg a' b))"
    using a e by (simp add: multi_run_def handle_iterpars_def bind_err_simps)
  with ab show "\<exists>a b. a \<noteq> b \<and> (\<forall>suggest normal run n noise noisepar verbose combine.
          multi_run suggest normal run sim n noise noisepar (Some ip) verbose sim_args combine
            = Inl (ValueError (length_errormsg a b)))"
    by blast
next
  fix L
  assume u: "ip \<noteq> [] \<and> (\<forall>p \<in> set ip. length (snd p) = L)"
  then have n: "iterpars_n None ip = Inr (Some L)"
    by (simp add: iterpars_n_first)
  then show "handle_iterpars n0 (Some ip) = Inr (Some (int L), ip)"
    by (simp add: handle_iterpars_def bind_err_simps)
next
  fix L sims
  assume u: "ip \<noteq> [] \<and> (\<forall>p \<in> set ip. length (snd p) = L)"
    and m: "multi_run suggest0 normal0 run0 sim n0 noise0 noisepar0 (Some ip) verbose0 sim_args False
                   = Inr (Sims sims)"
  have "iterpars_n None ip = Inr (Some L)"
    using u by (simp add: iterpars_n_first)
  then have h: "handle_iterpars n0 (Some ip) = Inr (Some (int L), ip)"
    by (simp add: handle_iterpars_def bind_err_simps)
  obtain S' where S': "new_sim_of sim sim_args = Inr S'"
    using m by (cases "new_sim_of sim sim_args") (auto simp: multi_run_def bind_err_simps)
  obtain inds where inds: "np_arange (int L) = Inr inds"
    using m S' h by (cases "np_arange (int L)") (auto simp: multi_run_def bind_err_simps)
  then have li: "length inds = L"
    by (auto dest: np_arange_length)
  obtain v' d' where ik: "dict_update [(''ind'', inds)] ip = (''ind'', v') # d'"
    and v': "v' = inds \<or> (''ind'', v') \<in> set ip"
    using dict_update_head [of "''ind''" inds "[]" ip] by blast
  have lv: "length v' = L"
    using v' u li by auto
  let ?task = "\<lambda>ind kw. single_run suggest0 normal0 (if sim = None then Sim_run else run0)
                          (Some S') ind noise0 noisepar0 verbose0 sim_args kw"
  have "parallelize ?task ((''ind'', v') # d') = Inr sims"
    using m S' h inds ik
    by (cases "parallelize ?task ((''ind'', v') # d')")
       (auto simp: multi_run_def bind_err_simps)
  then have "length sims = length v'"
    by (rule parallelize_length)
  then show "length sims = L" using lv by simp
qed

theorem iterpars_lengths_witness:
  "new_sim_of (Some \<lparr>pars = [(''seed'', PInt 5), (''verbose'', PInt 0), (''beta'', PFloat 2)],
         people = None, uids = None, results = None, results_keys = None\<rparr>) None
     = Inr \<lparr>pars = [(''seed'', PInt 5), (''verbose'', PInt 0), (''beta'', PFloat 2)],
         people = None, uids = None, results = None, results_keys = None\<rparr>
   \<and> (\<exists>p \<in> set [(''a'', [PInt 1, PInt 2]), (''b'', [PInt 1, PInt 2, PInt 3])].
       \<exists>q \<in> set [(''a'', [PInt 1, PInt 2]), (''b'', [PInt 1, PInt 2, PInt 3])].
         length (snd p) \<noteq> length (snd q))
   \<and> (\<exists>a b. a \<noteq> b \<and> (\<forall>suggest normal run n noise noisepar verbose combine.
          multi_run suggest normal run
            (Some \<lparr>pars = [(''seed'', PInt 5), (''verbose'', PInt 0), (''beta'', PFloat 2)],
               people = None, uids = None, results = None, results_keys = None\<rparr>)
            n noise noisepar (Some [(''a'', [PInt 1, PInt 2]), (''b'', [PInt 1, PInt 2, PInt 3])])
            verbose None combine
          = Inl (ValueError (length_errormsg a b))))
   \<and> [(''beta'', [PFloat 1, PFloat 3])] \<noteq> []
   \<and> list_all (\<lambda>p. length (snd p) = 2) [(''beta'', [PFloat 1, PFloat 3])]
   \<and> handle_iterpars 4 (Some [(''beta'', [PFloat 1, PFloat 3])])
       = Inr (Some 2, [(''beta'', [PFloat 1, PFloat 3])])
   \<and> multi_run (\<lambda>k ks. None) (\<lambda>r. 0) (\<lambda>v s. Inr s)
        (Some \<lparr>pars = [(''seed'', PInt 5), (''verbose'', PInt 0), (''beta'', PFloat 2)],
           people = None, uids = None, results = None, results_keys = None\<rparr>)
        4 0 None (Some [(''beta'', [PFloat 1, PFloat 3])]) (PInt 1) None False
       = Inr (Sims [\<lparr>pars = [(''seed'', PInt64 5), (''verbose'', PInt 0), (''beta'', PFloat 1)],
                       people = None, uids = None, results = None, results_keys = None\<rparr>,
                    \<lparr>pars = [(''seed'', PInt64 6), (''verbose'', PInt 0), (''beta'', PFloat 3)],
                       people = None, uids = None, results = None, results_keys = None\<rparr>])
   \<and> length [\<lparr>pars = [(''seed'', PInt64 5), (''verbose'', PInt 0), (''beta'', PFloat 1)],
                       people = None, uids = None, results = None, results_keys = None\<rparr>,
                    \<lparr>pars = [(''seed'', PInt64 6), (''verbose'', PInt 0), (''beta'', PFloat 3)],
                       people = None, uids = None, results = None, results_keys = None\<rparr>] = 2"
proof -
  let ?S = "\<lparr>pars = [(''seed'', PInt 5), (''verbose'', PInt 0), (''beta'', PFloat 2)],
         people = None, uids = None, results = None, results_keys = None\<rparr>"
  have a: "new_sim_of (Some ?S) None = Inr ?S"
    by (simp add: new_sim_of_def)
  have b: "\<exists>p \<in> set [(''a'', [PInt 1, PInt 2]), (''b'', [PInt 1, PInt 2, PInt 3])].
       \<exists>q \<in> set [(''a'', [PInt 1, PInt 2]), (''b'', [PInt 1, PInt 2, PInt 3])].
         length (snd p) \<noteq> length (snd q)"
    by auto
  have c: "multi_run (\<lambda>k ks. None) (\<lambda>r. 0) (\<lambda>v s. Inr s) (Some ?S)
        4 0 None (Some [(''beta'', [PFloat 1, PFloat 3])]) (PInt 1) None False
       = Inr (Sims [\<lparr>pars = [(''seed'', PInt64 5), (''verbose'', PInt 0), (''beta'', PFloat 1)],
                       people = None, uids = None, results = None, results_keys = None\<rparr>,
                    \<lparr>pars = [(''seed'', PInt64 6), (''verbose'', PInt 0), (''beta'', PFloat 3)],
                       people = None, uids = None, results = None, results_keys = None\<rparr>])"
    by (simp add: batch_defs eval_defs upt_rec)
  show ?thesis
    using a b c
      iterpars_lengths [of "Some ?S" None "[(''a'', [PInt 1, PInt 2]), (''b'', [PInt 1, PInt 2, PInt 3])]"]
      iterpars_lengths [of "Some ?S" None "[(''beta'', [PFloat 1, PFloat 3])]" 4
         "\<lambda>k ks. None" "\<lambda>r. 0" "\<lambda>v s. Inr s" 0 None "PInt 1"]
    by simp
qed

section \<open>The seeds of a batch\<close>











end
